theory Spec2Isabelle
  imports Complex_Main "HOL-Library.Sublist"
begin

section \<open>Trend analysis of device metric histories (modules/advanced\_analytics.py)\<close>

text \<open>
  The development embeds the class \<open>DeviceAnalytics\<close>: the three snapshot producers, the
  history file kept per metric type, and the trend analysis over a time window.

  Conventions of the embedding.
  \<^item> Python floats are exact rationals (\<open>rat\<close>): the binary rounding of IEEE doubles is
    not part of the model, so \<open>0.1\<close> is the rational \<open>1/10\<close>.
  \<^item> A \<open>datetime\<close> is an integer number of microseconds; \<open>timedelta(days=d)\<close> is
    \<open>d * 86400000000\<close>. The ISO string kept in a snapshot is identified with the instant
    it denotes (\<open>fromisoformat\<close> inverts \<open>isoformat\<close>).
  \<^item> A history file holds what \<open>json.load\<close> returns for it; \<open>json.dump\<close> followed by
    \<open>json.load\<close> is the identity on snapshots (\<open>None\<close> is written as \<open>null\<close>).
\<close>

subsection \<open>Numeric helpers: rounding and the degree-1 polynomial fit\<close>

text \<open>\<open>round(v, 2)\<close>: nearest multiple of 1/100, a tie going to the even neighbour.\<close>

definition round_half_even :: "rat \<Rightarrow> int" where
  "round_half_even q =
     (let f = \<lfloor>q\<rfloor>; d = q - of_int f in
      if d < 1 / 2 then f
      else if 1 / 2 < d then f + 1
      else if even f then f else f + 1)"

definition round2 :: "rat \<Rightarrow> rat" where
  "round2 q = of_int (round_half_even (q * 100)) / 100"

text \<open>\<open>np.arange(n)\<close>: the indices \<open>0, 1, ..., n - 1\<close> as numbers.\<close>

definition arange :: "nat \<Rightarrow> rat list" where
  "arange n = map of_nat [0..<n]"

text \<open>
  \<open>np.polyfit(x, y, 1)\<close>: the coefficients \<open>(slope, intercept)\<close> of the least-squares
  line, highest degree first, here by the normal equations in exact arithmetic.
\<close>

definition polyfit1 :: "rat list \<Rightarrow> rat list \<Rightarrow> rat \<times> rat" where
  "polyfit1 xs ys =
     (let ps = zip xs ys;
          n = of_nat (length ps);
          sx = sum_list (map fst ps);
          sy = sum_list (map snd ps);
          sxx = sum_list (map (\<lambda>(x, y). x * x) ps);
          sxy = sum_list (map (\<lambda>(x, y). x * y) ps);
          slope = (n * sxy - sx * sy) / (n * sxx - sx * sx);
          intercept = (sy - slope * sx) / n
      in (slope, intercept))"

subsection \<open>Trend classification and prediction\<close>

definition calculate_trend :: "rat list \<Rightarrow> string" where
  "calculate_trend values =
     (if length values < 2 then ''stable''
      else
        let x = arange (length values);
            y = values;
            slope = fst (polyfit1 x y)
        in if slope > 1 / 10 then ''improving''
           else if slope < - (1 / 10) then ''degrading''
           else ''stable'')"

definition predict_next_value :: "rat list \<Rightarrow> rat option" where
  "predict_next_value values =
     (if length values < 3 then None
      else
        let x = arange (length values);
            y = values;
            coeffs = polyfit1 x y;
            next_x = of_nat (length values);
            prediction = fst coeffs * next_x + snd coeffs
        in Some (round2 prediction))"


text \<open>
  The least-squares line in the words of the specification, for the comparison with
  \<open>polyfit1\<close>: \<open>sse ys a b\<close> is the sum of the squared residuals of the line
  \<open>y = a * x + b\<close> over the points \<open>(i, ys ! i)\<close>, \<open>i = 0 .. n - 1\<close>, and a
  least-squares line is one that no other line beats.
\<close>

definition sse :: "rat list \<Rightarrow> rat \<Rightarrow> rat \<Rightarrow> rat" where
  "sse ys a b = (\<Sum>i < length ys. (ys ! i - (a * of_nat i + b)) ^ 2)"

definition least_squares_line :: "rat list \<Rightarrow> rat \<Rightarrow> rat \<Rightarrow> bool" where
  "least_squares_line ys a b = (\<forall>a' b'. sse ys a b \<le> sse ys a' b')"

subsection \<open>Snapshots and results\<close>

record analytics_result =
  metric_name :: string
  current_value :: rat
  trend :: string
  prediction :: "rat option"
  confidence :: rat
  recommendations :: "string list"

text \<open>The dictionaries built by the three producers; \<open>None\<close> is Python's \<open>None\<close>.\<close>

record battery_metrics =
  level :: "int option"
  cycle_count :: "int option"
  is_charging :: "bool option"

record storage_metrics =
  total_gb :: "rat option"
  used_gb :: "rat option"
  available_gb :: "rat option"
  usage_percent :: "rat option"

record performance_metrics =
  total_memory_gb :: "rat option"
  thermal_state :: "string option"

text \<open>
  A history entry: a producer's dictionary once \<open>collect_historical_data\<close> has added the
  key \<open>timestamp\<close> to it.
\<close>

record 'm entry =
  timestamp :: int
  metrics :: 'm

subsection \<open>Reading the device\<close>

text \<open>
  What \<open>subprocess.run(['ideviceinfo', '-u', udid, '-k', key], ...)\<close> gives for a key:
  \<open>None\<close> when the call itself raises, else the exit code and the captured output.
\<close>

record completed_process =
  returncode :: int
  stdout :: string

type_synonym ideviceinfo = "string \<Rightarrow> completed_process option"

datatype py_error = ValueError | OSError

definition is_space :: "char \<Rightarrow> bool" where
  "is_space c = (let k = (of_char c :: nat) in (9 \<le> k \<and> k \<le> 13) \<or> (28 \<le> k \<and> k \<le> 32))"

definition strip :: "string \<Rightarrow> string" where
  "strip s = rev (dropWhile is_space (rev (dropWhile is_space s)))"

definition lower :: "string \<Rightarrow> string" where
  "lower s = map (\<lambda>c. let k = (of_char c :: nat) in
                       if 65 \<le> k \<and> k \<le> 90 then char_of (k + 32) else c) s"

text \<open>
  \<open>int(s)\<close> on a string: an optional sign, then decimal digits, single underscores allowed
  between digits; anything else raises \<open>ValueError\<close> (here \<open>None\<close>).
\<close>

fun py_digits :: "nat \<Rightarrow> bool \<Rightarrow> string \<Rightarrow> nat option" where
  "py_digits acc prev [] = (if prev then Some acc else None)"
| "py_digits acc prev (c # cs) =
     (let k = (of_char c :: nat) in
      if 48 \<le> k \<and> k \<le> 57 then py_digits (10 * acc + (k - 48)) True cs
      else if c = CHR ''_'' \<and> prev then py_digits acc False cs
      else None)"

definition py_int :: "string \<Rightarrow> int option" where
  "py_int s =
     (case strip s of
        [] \<Rightarrow> None
      | c # cs \<Rightarrow>
          if c = CHR ''-'' then map_option (\<lambda>n. - int n) (py_digits 0 False cs)
          else if c = CHR ''+'' then map_option int (py_digits 0 False cs)
          else map_option int (py_digits 0 False (c # cs)))"

text \<open>The expression \<open>int(r.stdout.strip()) if r.returncode == 0 else None\<close>.\<close>

definition int_if_ok :: "completed_process \<Rightarrow> py_error + int option" where
  "int_if_ok r =
     (if returncode r = 0
      then (case py_int (strip (stdout r)) of None \<Rightarrow> Inl ValueError | Some v \<Rightarrow> Inr (Some v))
      else Inr None)"

text \<open>Python's truth value of an optional number: \<open>None\<close> and zero are both false.\<close>

definition truthy_int :: "int option \<Rightarrow> bool" where
  "truthy_int v = (case v of None \<Rightarrow> False | Some n \<Rightarrow> n \<noteq> 0)"

definition truthy_num :: "rat option \<Rightarrow> bool" where
  "truthy_num v = (case v of None \<Rightarrow> False | Some q \<Rightarrow> q \<noteq> 0)"

subsection \<open>The snapshot producers\<close>

definition get_battery_metrics :: "ideviceinfo \<Rightarrow> battery_metrics" where
  "get_battery_metrics run =
     (let failed = \<lparr>level = None, cycle_count = None, is_charging = None\<rparr> in
      case run ''BatteryCurrentCapacity'' of None \<Rightarrow> failed | Some level_result \<Rightarrow>
     (case run ''BatteryCycleCount'' of None \<Rightarrow> failed | Some cycle_result \<Rightarrow>
     (case run ''BatteryIsCharging'' of None \<Rightarrow> failed | Some charging_result \<Rightarrow>
     (case int_if_ok level_result of Inl e \<Rightarrow> failed | Inr lv \<Rightarrow>
     (case int_if_ok cycle_result of Inl e \<Rightarrow> failed | Inr cc \<Rightarrow>
        \<lparr>level = lv,
         cycle_count = cc,
         is_charging =
           (if returncode charging_result = 0
            then Some (lower (strip (stdout charging_result)) = ''true'')
            else None)\<rparr>)))))"

definition get_storage_metrics :: "ideviceinfo \<Rightarrow> storage_metrics" where
  "get_storage_metrics run =
     (let failed = \<lparr>total_gb = None, used_gb = None, available_gb = None,
                     usage_percent = None\<rparr> in
      case run ''TotalDiskCapacity'' of None \<Rightarrow> failed | Some total_result \<Rightarrow>
     (case run ''AmountDataAvailable'' of None \<Rightarrow> failed | Some available_result \<Rightarrow>
     (case int_if_ok total_result of Inl e \<Rightarrow> failed | Inr total_bytes \<Rightarrow>
     (case int_if_ok available_result of Inl e \<Rightarrow> failed | Inr available_bytes \<Rightarrow>
        (let used_bytes =
              (if truthy_int total_bytes \<and> truthy_int available_bytes
               then Some (the total_bytes - the available_bytes) else None);
            usage_pct =
              (if truthy_int total_bytes \<and> truthy_int used_bytes
               then Some (of_int (the used_bytes) / of_int (the total_bytes) * 100)
               else None)
         in \<lparr>total_gb =
               (if truthy_int total_bytes
                then Some (round2 (of_int (the total_bytes) / 1073741824)) else None),
             used_gb =
               (if truthy_int used_bytes
                then Some (round2 (of_int (the used_bytes) / 1073741824)) else None),
             available_gb =
               (if truthy_int available_bytes
                then Some (round2 (of_int (the available_bytes) / 1073741824)) else None),
             usage_percent =
               (if truthy_num usage_pct
                then Some (round2 (the usage_pct)) else None)\<rparr>)))))"

definition get_performance_metrics :: "ideviceinfo \<Rightarrow> performance_metrics" where
  "get_performance_metrics run =
     (let failed = \<lparr>total_memory_gb = None, thermal_state = None\<rparr> in
      case run ''TotalSystemAvailable'' of None \<Rightarrow> failed | Some memory_result \<Rightarrow>
     (case run ''ThermalState'' of None \<Rightarrow> failed | Some thermal_result \<Rightarrow>
     (case int_if_ok memory_result of Inl e \<Rightarrow> failed | Inr memory_bytes \<Rightarrow>
        \<lparr>total_memory_gb = map_option (\<lambda>v. round2 (of_int v / 1073741824)) memory_bytes,
         thermal_state =
           (if returncode thermal_result = 0
            then Some (strip (stdout thermal_result)) else None)\<rparr>)))"

subsection \<open>The history file\<close>

text \<open>
  One file \<open><metric_type>_history.json\<close> of the device's data directory: missing, present
  but not loadable (\<open>open\<close> or \<open>json.load\<close> raises), or holding a list of entries.
\<close>

datatype 'a history_file = NoFile | Unreadable | Stored "'a list"

text \<open>
  How the final \<open>open(history_file, 'w')\<close> and \<open>json.dump\<close> end: the list is written;
  or \<open>open\<close> raises and the file is as before; or the file is truncated and the dump
  raises part-way (disk full), which leaves text that is not JSON.
\<close>

datatype write_outcome = Written | OpenFailed | DumpFailed

text \<open>
  \<open>_append_to_history\<close>, on the file that \<open>metric_type\<close> selects. \<open>Inr\<close> is the normal
  return with the file as written; \<open>Inl\<close> is the exception that leaves the method, with
  the file it leaves behind.
\<close>

definition append_to_history ::
  "write_outcome \<Rightarrow> 'a history_file \<Rightarrow> 'a \<Rightarrow> py_error \<times> 'a history_file + 'a history_file" where
  "append_to_history w history_file data =
     (let history = (case history_file of
                       NoFile \<Rightarrow> []
                     | Unreadable \<Rightarrow> []
                     | Stored h \<Rightarrow> h);
          history = history @ [data];
          history = (if length history > 1000
                     then drop (length history - 1000) history else history)
      in case w of
           Written \<Rightarrow> Inr (Stored history)
         | OpenFailed \<Rightarrow> Inl (OSError, history_file)
         | DumpFailed \<Rightarrow> Inl (OSError, Unreadable))"

text \<open>A run of appends to one file, each with its own write outcome; the first exception ends it.\<close>

fun append_all ::
  "'a history_file \<Rightarrow> (write_outcome \<times> 'a) list \<Rightarrow> py_error \<times> 'a history_file + 'a history_file" where
  "append_all f [] = Inr f"
| "append_all f ((w, d) # rest) =
     (case append_to_history w f d of
        Inl e \<Rightarrow> Inl e
      | Inr f' \<Rightarrow> append_all f' rest)"

text \<open>What \<open>_append_to_history\<close> takes a file to hold before it appends (auxiliary).\<close>

definition contents :: "'a history_file \<Rightarrow> 'a list" where
  "contents f = (case f of NoFile \<Rightarrow> [] | Unreadable \<Rightarrow> [] | Stored h \<Rightarrow> h)"

record analytics_dir =
  battery_history :: "battery_metrics entry history_file"
  storage_history :: "storage_metrics entry history_file"
  performance_history :: "performance_metrics entry history_file"

text \<open>
  \<open>collect_historical_data\<close> at the instant \<open>now\<close>; \<open>w1\<close>, \<open>w2\<close>, \<open>w3\<close> are the outcomes
  of the three writes. The returned dictionary is the triple of entries.
\<close>

definition collect_historical_data ::
  "ideviceinfo \<Rightarrow> int \<Rightarrow> write_outcome \<Rightarrow> write_outcome \<Rightarrow> write_outcome \<Rightarrow> analytics_dir \<Rightarrow>
   py_error \<times> analytics_dir +
   (battery_metrics entry \<times> storage_metrics entry \<times> performance_metrics entry) \<times> analytics_dir" where
  "collect_historical_data run now w1 w2 w3 dir =
     (let battery_data = \<lparr>timestamp = now, metrics = get_battery_metrics run\<rparr>;
          storage_data = \<lparr>timestamp = now, metrics = get_storage_metrics run\<rparr>;
          performance_data = \<lparr>timestamp = now, metrics = get_performance_metrics run\<rparr>
      in case append_to_history w1 (battery_history dir) battery_data of
           Inl (e, f) \<Rightarrow> Inl (e, dir\<lparr>battery_history := f\<rparr>)
         | Inr f1 \<Rightarrow>
       (case append_to_history w2 (storage_history dir) storage_data of
           Inl (e, f) \<Rightarrow> Inl (e, dir\<lparr>battery_history := f1, storage_history := f\<rparr>)
         | Inr f2 \<Rightarrow>
       (case append_to_history w3 (performance_history dir) performance_data of
           Inl (e, f) \<Rightarrow>
             Inl (e, dir\<lparr>battery_history := f1, storage_history := f2, performance_history := f\<rparr>)
         | Inr f3 \<Rightarrow>
             Inr ((battery_data, storage_data, performance_data),
                  \<lparr>battery_history = f1, storage_history = f2, performance_history = f3\<rparr>))))"

subsection \<open>Recommendations\<close>

definition get_battery_recommendations :: "string \<Rightarrow> rat \<Rightarrow> string list" where
  "get_battery_recommendations trnd current_level =
     (if trnd = ''degrading''
      then [''Battery performance declining - monitor closely'',
            ''Consider enabling Low Power Mode more frequently'',
            ''Reduce screen brightness and background app refresh'']
      else []) @
     (if current_level < 20 then [''Charge device soon to avoid shutdown''] else [])"

definition get_cycle_recommendations :: "int \<Rightarrow> string list" where
  "get_cycle_recommendations cycles =
     (if cycles > 500
      then [''Battery cycle count is high - consider replacement'',
            ''Enable Optimized Battery Charging'',
            ''Avoid frequent full charge/discharge cycles'']
      else []) @
     (if cycles > 1000 then [''Battery replacement strongly recommended''] else [])"

definition get_storage_recommendations :: "string \<Rightarrow> rat \<Rightarrow> string list" where
  "get_storage_recommendations trnd current_usage =
     (if trnd = ''degrading'' \<or> current_usage > 85
      then [''Storage usage increasing rapidly'',
            ''Delete unused apps and files'',
            ''Enable Optimize iPhone Storage for Photos'',
            ''Review and delete large attachments'']
      else []) @
     (if current_usage > 95 then [''Critical storage level - immediate cleanup needed''] else [])"

definition get_thermal_recommendations :: "rat \<Rightarrow> string list" where
  "get_thermal_recommendations thermal_score =
     (if thermal_score < 70
      then [''Device overheating frequently'',
            ''Avoid intensive tasks while charging'',
            ''Remove case during heavy usage'',
            ''Keep device out of direct sunlight'']
      else [])"

subsection \<open>The time window and the three analyses\<close>

text \<open>
  The entries kept by the comprehension
  \<open>[entry for entry in history if fromisoformat(entry['timestamp']) >= cutoff_date]\<close>.
\<close>

fun entries_since :: "int \<Rightarrow> 'm entry list \<Rightarrow> 'm entry list" where
  "entries_since cutoff_date [] = []"
| "entries_since cutoff_date (e # history) =
     (if timestamp e \<ge> cutoff_date
      then e # entries_since cutoff_date history
      else entries_since cutoff_date history)"

definition cutoff_date :: "int \<Rightarrow> int \<Rightarrow> int" where
  "cutoff_date now days = now - days * 86400000000"

definition recent_history :: "int \<Rightarrow> int \<Rightarrow> 'm entry list \<Rightarrow> 'm entry list" where
  "recent_history now days history = entries_since (cutoff_date now days) history"

text \<open>
  The window of a history file as the analyses use it. A missing file makes them return
  \<open>{}\<close> before anything is read, which is also what they return for an empty window; a
  file that does not load raises inside their \<open>try\<close>, so there is no window at all.
\<close>

definition window :: "'m entry history_file \<Rightarrow> int \<Rightarrow> int \<Rightarrow> 'm entry list option" where
  "window history_file now days =
     (case history_file of
        NoFile \<Rightarrow> Some []
      | Unreadable \<Rightarrow> None
      | Stored history \<Rightarrow> Some (recent_history now days history))"

text \<open>The present values of one field across a window, in order.\<close>

definition present_values :: "('m \<Rightarrow> 'v option) \<Rightarrow> 'm entry list \<Rightarrow> 'v list" where
  "present_values field recent = List.map_filter (\<lambda>entry. field (metrics entry)) recent"

definition analyze_battery_trends ::
  "battery_metrics entry history_file \<Rightarrow> int \<Rightarrow> int \<Rightarrow> (string \<rightharpoonup> analytics_result)" where
  "analyze_battery_trends history_file now days =
     (case history_file of
        NoFile \<Rightarrow> Map.empty
      | Unreadable \<Rightarrow> Map.empty
      | Stored history \<Rightarrow>
          let recent = recent_history now days history in
          if length recent < 3 then Map.empty
          else
            let levels = present_values level recent;
                cycle_counts = present_values cycle_count recent;
                results = Map.empty;
                results =
                  (if levels \<noteq> [] then
                     let level_trend = calculate_trend (map of_int levels) in
                     results(''battery_level'' \<mapsto>
                       \<lparr>metric_name = ''Battery Level'',
                        current_value = of_int (last levels),
                        trend = level_trend,
                        prediction = predict_next_value (map of_int levels),
                        confidence = 7 / 10,
                        recommendations =
                          get_battery_recommendations level_trend (of_int (last levels))\<rparr>)
                   else results);
                results =
                  (if cycle_counts \<noteq> [] \<and> length cycle_counts > 1 then
                     let cycle_trend = calculate_trend (map of_int cycle_counts) in
                     results(''battery_cycles'' \<mapsto>
                       \<lparr>metric_name = ''Battery Cycles'',
                        current_value = of_int (last cycle_counts),
                        trend = cycle_trend,
                        prediction = predict_next_value (map of_int cycle_counts),
                        confidence = 8 / 10,
                        recommendations = get_cycle_recommendations (last cycle_counts)\<rparr>)
                   else results)
            in results)"

definition analyze_storage_trends ::
  "storage_metrics entry history_file \<Rightarrow> int \<Rightarrow> int \<Rightarrow> (string \<rightharpoonup> analytics_result)" where
  "analyze_storage_trends history_file now days =
     (case history_file of
        NoFile \<Rightarrow> Map.empty
      | Unreadable \<Rightarrow> Map.empty
      | Stored history \<Rightarrow>
          let recent = recent_history now days history in
          if length recent < 3 then Map.empty
          else
            let usage_percents = present_values usage_percent recent;
                results = Map.empty;
                results =
                  (if usage_percents \<noteq> [] then
                     let usage_trend = calculate_trend usage_percents in
                     results(''storage_usage'' \<mapsto>
                       \<lparr>metric_name = ''Storage Usage'',
                        current_value = last usage_percents,
                        trend = usage_trend,
                        prediction = predict_next_value usage_percents,
                        confidence = 9 / 10,
                        recommendations =
                          get_storage_recommendations usage_trend (last usage_percents)\<rparr>)
                   else results)
            in results)"

text \<open>The thermal states of a window that Python counts as true: present and not empty.\<close>

definition truthy_states :: "performance_metrics entry list \<Rightarrow> string list" where
  "truthy_states recent =
     List.map_filter
       (\<lambda>entry. case thermal_state (metrics entry) of
                   None \<Rightarrow> None
                 | Some s \<Rightarrow> if s = [] then None else Some s) recent"

definition thermal_issues_of :: "string list \<Rightarrow> nat" where
  "thermal_issues_of thermal_states =
     length (filter (\<lambda>state. state \<notin> set [''Normal'', ''Fair'']) thermal_states)"

definition thermal_score_of :: "string list \<Rightarrow> rat" where
  "thermal_score_of thermal_states =
     max 0 (100 - (of_nat (thermal_issues_of thermal_states) / of_nat (length thermal_states) * 100))"

definition analyze_performance_trends ::
  "performance_metrics entry history_file \<Rightarrow> int \<Rightarrow> int \<Rightarrow> (string \<rightharpoonup> analytics_result)" where
  "analyze_performance_trends history_file now days =
     (case history_file of
        NoFile \<Rightarrow> Map.empty
      | Unreadable \<Rightarrow> Map.empty
      | Stored history \<Rightarrow>
          let recent = recent_history now days history in
          if length recent < 3 then Map.empty
          else
            let thermal_states = truthy_states recent;
                results = Map.empty;
                results =
                  (if thermal_states \<noteq> [] then
                     let thermal_score = thermal_score_of thermal_states in
                     results(''thermal_performance'' \<mapsto>
                       \<lparr>metric_name = ''Thermal Performance'',
                        current_value = thermal_score,
                        trend = (if thermal_score > 80 then ''stable'' else ''degrading''),
                        prediction = None,
                        confidence = 6 / 10,
                        recommendations = get_thermal_recommendations thermal_score\<rparr>)
                   else results)
            in results)"

definition analyze_trends :: "analytics_dir \<Rightarrow> int \<Rightarrow> int \<Rightarrow> (string \<rightharpoonup> analytics_result)" where
  "analyze_trends dir now days =
     (Map.empty ++ analyze_battery_trends (battery_history dir) now days
                ++ analyze_storage_trends (storage_history dir) now days
                ++ analyze_performance_trends (performance_history dir) now days)"

subsection \<open>Example data\<close>

text \<open>Three battery entries inside the window, one of them with a level.\<close>

definition one_level_history :: "battery_metrics entry list" where
  "one_level_history =
     [\<lparr>timestamp = 0, metrics = \<lparr>level = Some 50, cycle_count = None, is_charging = None\<rparr>\<rparr>,
      \<lparr>timestamp = 0, metrics = \<lparr>level = None, cycle_count = None, is_charging = None\<rparr>\<rparr>,
      \<lparr>timestamp = 0, metrics = \<lparr>level = None, cycle_count = None, is_charging = None\<rparr>\<rparr>]"

text \<open>Three battery entries with the same level.\<close>

definition constant_level_history :: "battery_metrics entry list" where
  "constant_level_history =
     [\<lparr>timestamp = 0, metrics = \<lparr>level = Some 77, cycle_count = None, is_charging = None\<rparr>\<rparr>,
      \<lparr>timestamp = 0, metrics = \<lparr>level = Some 77, cycle_count = None, is_charging = None\<rparr>\<rparr>,
      \<lparr>timestamp = 0, metrics = \<lparr>level = Some 77, cycle_count = None, is_charging = None\<rparr>\<rparr>]"

text \<open>Four battery entries with levels 80, 75, 70, 65, one a day.\<close>

definition falling_level_history :: "battery_metrics entry list" where
  "falling_level_history =
     [\<lparr>timestamp = 0,
       metrics = \<lparr>level = Some 80, cycle_count = None, is_charging = None\<rparr>\<rparr>,
      \<lparr>timestamp = 86400000000,
       metrics = \<lparr>level = Some 75, cycle_count = None, is_charging = None\<rparr>\<rparr>,
      \<lparr>timestamp = 172800000000,
       metrics = \<lparr>level = Some 70, cycle_count = None, is_charging = None\<rparr>\<rparr>,
      \<lparr>timestamp = 259200000000,
       metrics = \<lparr>level = Some 65, cycle_count = None, is_charging = None\<rparr>\<rparr>]"

text \<open>A battery entry with an empty battery and no cycle count.\<close>

definition zero_level_entry :: "battery_metrics entry" where
  "zero_level_entry =
     \<lparr>timestamp = 100,
      metrics = \<lparr>level = Some 0, cycle_count = None, is_charging = Some False\<rparr>\<rparr>"

text \<open>Entries taken 100, 20 and 5 days before the instant \<open>8640000000000\<close>.\<close>

definition aged_history :: "unit entry list" where
  "aged_history =
     [\<lparr>timestamp = 0, metrics = ()\<rparr>,
      \<lparr>timestamp = 6912000000000, metrics = ()\<rparr>,
      \<lparr>timestamp = 8208000000000, metrics = ()\<rparr>]"

text \<open>Three performance entries, one of them in a state other than Normal and Fair.\<close>

definition warm_history :: "performance_metrics entry list" where
  "warm_history =
     [\<lparr>timestamp = 0, metrics = \<lparr>total_memory_gb = None, thermal_state = Some ''Normal''\<rparr>\<rparr>,
      \<lparr>timestamp = 0, metrics = \<lparr>total_memory_gb = None, thermal_state = Some ''Serious''\<rparr>\<rparr>,
      \<lparr>timestamp = 0, metrics = \<lparr>total_memory_gb = None, thermal_state = Some ''Fair''\<rparr>\<rparr>]"

text \<open>
  A device whose disk of 64 000 000 000 bytes has no byte available, and whose battery is
  empty after no charge cycle; every call exits with code 0.
\<close>

definition full_disk_device :: ideviceinfo where
  "full_disk_device key =
     (if key = ''TotalDiskCapacity''
      then Some \<lparr>returncode = 0, stdout = ''64000000000'' @ [CHR 0x0A]\<rparr>
      else if key = ''AmountDataAvailable''
      then Some \<lparr>returncode = 0, stdout = ''0'' @ [CHR 0x0A]\<rparr>
      else if key = ''BatteryCurrentCapacity''
      then Some \<lparr>returncode = 0, stdout = ''0'' @ [CHR 0x0A]\<rparr>
      else if key = ''BatteryCycleCount''
      then Some \<lparr>returncode = 0, stdout = ''0'' @ [CHR 0x0A]\<rparr>
      else if key = ''BatteryIsCharging''
      then Some \<lparr>returncode = 0, stdout = ''false'' @ [CHR 0x0A]\<rparr>
      else None)"

section \<open>Properties\<close>

subsection \<open>The fitted line is the least-squares line\<close>

text \<open>
  Sums over the zipped points are sums over the indices; the residuals of any line split
  into those of the fitted line plus a square, because the fitted line satisfies the two
  normal equations. Hence the fitted line is a least-squares line, and the only one, as
  soon as there are two points.
\<close>

lemma sum_list_zip_arange:
  "sum_list (map f (zip (arange (length ys)) ys)) = (\<Sum>i < length ys. f (of_nat i, ys ! i))"
proof -
  let ?ps = "zip (arange (length ys)) ys"
  have len: "length ?ps = length ys" by (simp add: arange_def)
  have "sum_list (map f ?ps) = (\<Sum>i = 0..<length (map f ?ps). map f ?ps ! i)"
    by (rule sum_list_sum_nth)
  also have "\<dots> = (\<Sum>i = 0..<length ys. f (of_nat i, ys ! i))"
    by (rule sum.cong) (simp_all add: arange_def)
  finally show ?thesis by (simp add: atLeast0LessThan)
qed

lemma residual_expansion:
  fixes ps :: "(rat \<times> rat) list"
  shows "sum_list (map (\<lambda>(x, y). (y - (a' * x + b')) ^ 2) ps) =
         sum_list (map (\<lambda>(x, y). (y - (a * x + b)) ^ 2) ps)
         - 2 * (a' - a) * sum_list (map (\<lambda>(x, y). x * (y - (a * x + b))) ps)
         - 2 * (b' - b) * sum_list (map (\<lambda>(x, y). y - (a * x + b)) ps)
         + sum_list (map (\<lambda>(x, y). ((a' - a) * x + (b' - b)) ^ 2) ps)"
  by (induction ps) (auto simp: algebra_simps power2_eq_square)

lemma residual_sums:
  fixes ps :: "(rat \<times> rat) list"
  shows "sum_list (map (\<lambda>(x, y). y - (a * x + b)) ps) =
           sum_list (map snd ps) - a * sum_list (map fst ps) - of_nat (length ps) * b"
    and "sum_list (map (\<lambda>(x, y). x * (y - (a * x + b))) ps) =
           sum_list (map (\<lambda>(x, y). x * y) ps) - a * sum_list (map (\<lambda>(x, y). x * x) ps)
           - b * sum_list (map fst ps)"
  by (induction ps) (auto simp: algebra_simps)

lemma sum_arange: "sum_list (arange n) = of_nat n * (of_nat n - 1) / 2"
  by (induction n) (auto simp: arange_def field_simps)

lemma sum_arange_sq:
  "sum_list (map (\<lambda>x. x * x) (arange n)) = (of_nat n - 1) * of_nat n * (2 * of_nat n - 1) / 6"
  by (induction n) (auto simp: arange_def field_simps)


lemma map_on_fst_zip:
  "length xs = length ys \<Longrightarrow> map (\<lambda>(x, y). g x) (zip xs ys) = map g xs"
  by (induction xs ys rule: list_induct2) auto

lemma fit_denominator_pos:
  assumes "2 \<le> n"
  shows "0 < of_nat n * sum_list (map (\<lambda>x. x * x) (arange n)) - sum_list (arange n) * sum_list (arange n)"
proof -
  have eq: "of_nat n * sum_list (map (\<lambda>x. x * x) (arange n)) - sum_list (arange n) * sum_list (arange n)
        = (of_nat n) ^ 2 * ((of_nat n) ^ 2 - 1) / (12 :: rat)"
    unfolding sum_arange sum_arange_sq by (simp add: field_simps power2_eq_square)
  have "(1::rat) < of_nat n" using assms by simp
  then have "(1::rat) < (of_nat n) ^ 2" by (simp add: power2_eq_square less_1_mult)
  moreover have "(0::rat) < (of_nat n) ^ 2" using assms by simp
  ultimately show ?thesis unfolding eq by simp
qed

lemma polyfit1_normal_equations:
  assumes n2: "2 \<le> length ys"
    and fit: "polyfit1 (arange (length ys)) ys = (a, b)"
  shows "sum_list (map (\<lambda>(x, y). y - (a * x + b)) (zip (arange (length ys)) ys)) = 0"
    and "sum_list (map (\<lambda>(x, y). x * (y - (a * x + b))) (zip (arange (length ys)) ys)) = 0"
proof -
  let ?xs = "arange (length ys)"
  let ?ps = "zip ?xs ys"
  define n :: rat where "n = of_nat (length ys)"
  define sx where "sx = sum_list ?xs"
  define sy where "sy = sum_list ys"
  define sxx where "sxx = sum_list (map (\<lambda>x. x * x) ?xs)"
  define sxy where "sxy = sum_list (map (\<lambda>(x, y). x * y) ?ps)"
  define D where "D = n * sxx - sx * sx"
  have len: "length ?xs = length ys" by (simp add: arange_def)
  have lps: "length ?ps = length ys" by (simp add: len)
  have fst_ps: "map fst ?ps = ?xs" using len by (simp add: map_fst_zip)
  have snd_ps: "map snd ?ps = ys" using len by (simp add: map_snd_zip)
  have sq_ps: "map (\<lambda>(x, y). x * x) ?ps = map (\<lambda>x. x * x) ?xs"
    using len by (rule map_on_fst_zip)
  have a: "a = (n * sxy - sx * sy) / D"
    using fit unfolding polyfit1_def Let_def lps fst_ps snd_ps sq_ps
    by (simp add: n_def sx_def sy_def sxx_def sxy_def D_def)
  have b: "b = (sy - a * sx) / n"
    using fit unfolding polyfit1_def Let_def lps fst_ps snd_ps sq_ps
    by (auto simp add: n_def sx_def sy_def sxx_def sxy_def D_def)
  have D: "D \<noteq> 0"
    using fit_denominator_pos [OF n2] by (simp add: D_def n_def sx_def sxx_def)
  have n: "n \<noteq> 0" using n2 by (auto simp: n_def)
  have aD: "a * D = n * sxy - sx * sy" using a D by simp
  have bn: "b * n = sy - a * sx" using b n by simp
  have "sum_list (map (\<lambda>(x, y). y - (a * x + b)) ?ps) = sy - a * sx - n * b"
    unfolding residual_sums(1) lps fst_ps snd_ps by (simp add: n_def sx_def sy_def)
  also have "\<dots> = 0" using bn by (simp add: mult.commute)
  finally show "sum_list (map (\<lambda>(x, y). y - (a * x + b)) ?ps) = 0" .
  have r1: "sum_list (map (\<lambda>(x, y). x * (y - (a * x + b))) ?ps) = sxy - a * sxx - b * sx"
    unfolding residual_sums(2) fst_ps sq_ps by (simp add: sx_def sxx_def sxy_def)
  have "n * (sxy - a * sxx - b * sx) = n * sxy - a * (n * sxx) - (b * n) * sx"
    by (simp add: algebra_simps)
  also have "\<dots> = n * sxy - sx * sy - a * D"
    unfolding bn D_def by (simp add: algebra_simps)
  also have "\<dots> = 0" using aD by simp
  finally have "sxy - a * sxx - b * sx = 0" using n by simp
  then show "sum_list (map (\<lambda>(x, y). x * (y - (a * x + b))) ?ps) = 0"
    using r1 by simp
qed

lemma sse_as_sum_list:
  "sse ys a b = sum_list (map (\<lambda>(x, y). (y - (a * x + b)) ^ 2) (zip (arange (length ys)) ys))"
  unfolding sse_def by (simp add: sum_list_zip_arange)

lemma sse_around_fit:
  assumes n2: "2 \<le> length ys"
    and fit: "polyfit1 (arange (length ys)) ys = (a, b)"
  shows "sse ys a' b' = sse ys a b + (\<Sum>i < length ys. ((a' - a) * of_nat i + (b' - b)) ^ 2)"
proof -
  have "sse ys a' b' = sse ys a b
      + sum_list (map (\<lambda>(x, y). ((a' - a) * x + (b' - b)) ^ 2) (zip (arange (length ys)) ys))"
    unfolding sse_as_sum_list
    by (subst residual_expansion [where a = a and b = b])
       (simp add: polyfit1_normal_equations [OF n2 fit])
  then show ?thesis by (simp add: sum_list_zip_arange)
qed

lemma polyfit1_minimises:
  assumes "2 \<le> length ys" and "polyfit1 (arange (length ys)) ys = (a, b)"
  shows "least_squares_line ys a b"
proof -
  have "sse ys a b \<le> sse ys a' b'" for a' b'
    using sse_around_fit [OF assms, of a' b']
      sum_nonneg [of "{..<length ys}" "\<lambda>i. ((a' - a) * of_nat i + (b' - b)) ^ 2"]
    by simp
  then show ?thesis by (simp add: least_squares_line_def)
qed

lemma least_squares_line_unique:
  assumes n2: "2 \<le> length ys"
    and fit: "polyfit1 (arange (length ys)) ys = (a, b)"
    and ls: "least_squares_line ys a' b'"
  shows "a' = a \<and> b' = b"
proof -
  let ?g = "\<lambda>i::nat. ((a' - a) * of_nat i + (b' - b)) ^ 2"
  have "sse ys a' b' \<le> sse ys a b" using ls by (simp add: least_squares_line_def)
  then have "(\<Sum>i < length ys. ?g i) \<le> 0"
    using sse_around_fit [OF n2 fit, of a' b'] by simp
  moreover have "0 \<le> (\<Sum>i < length ys. ?g i)" by (simp add: sum_nonneg)
  ultimately have "(\<Sum>i < length ys. ?g i) = 0" by simp
  then have all0: "\<forall>i \<in> {..< length ys}. ?g i = 0"
    by (subst (asm) sum_nonneg_eq_0_iff) simp_all
  have "0 \<in> {..< length ys}" "1 \<in> {..< length ys}" using n2 by auto
  with all0 have g0: "?g 0 = 0" and g1: "?g 1 = 0" by blast+
  from g0 have b: "b' = b" by simp
  from g1 b have "a' = a" by simp
  with b show ?thesis by simp
qed

lemma least_squares_line_iff:
  assumes "2 \<le> length ys"
  shows "least_squares_line ys a b \<longleftrightarrow> polyfit1 (arange (length ys)) ys = (a, b)"
proof
  assume ls: "least_squares_line ys a b"
  obtain a0 b0 where fit: "polyfit1 (arange (length ys)) ys = (a0, b0)"
    by (cases "polyfit1 (arange (length ys)) ys")
  from least_squares_line_unique [OF assms fit ls] fit
  show "polyfit1 (arange (length ys)) ys = (a, b)" by simp
next
  assume "polyfit1 (arange (length ys)) ys = (a, b)"
  with assms show "least_squares_line ys a b" by (rule polyfit1_minimises)
qed

subsection \<open>Rounding to two decimals\<close>

lemma round_half_even_near: "\<bar>of_int (round_half_even q) - q\<bar> \<le> 1 / 2"
proof -
  define d where "d = q - of_int \<lfloor>q\<rfloor>"
  have d: "0 \<le> d" "d < 1" unfolding d_def by linarith+
  have fl: "of_int \<lfloor>q\<rfloor> = q - d" by (simp add: d_def)
  consider "d < 1 / 2" | "1 / 2 < d" | "d = 1 / 2" by linarith
  then show ?thesis
  proof cases
    case 1
    then have "round_half_even q = \<lfloor>q\<rfloor>"
      by (simp add: round_half_even_def Let_def d_def)
    then have "of_int (round_half_even q) - q = - d" using fl by simp
    then show ?thesis using 1 d by simp
  next
    case 2
    then have "round_half_even q = \<lfloor>q\<rfloor> + 1"
      by (simp add: round_half_even_def Let_def d_def)
    then have "of_int (round_half_even q) - q = 1 - d" using fl by simp
    then show ?thesis using 2 d by simp
  next
    case 3
    then have "round_half_even q = \<lfloor>q\<rfloor> \<or> round_half_even q = \<lfloor>q\<rfloor> + 1"
      by (simp add: round_half_even_def Let_def d_def)
    then have "of_int (round_half_even q) - q = - d \<or> of_int (round_half_even q) - q = 1 - d"
      using fl by auto
    then show ?thesis using 3 by auto
  qed
qed

lemma round_half_even_of_int: "round_half_even (of_int k) = k"
  by (simp add: round_half_even_def)

lemma round2_near: "\<bar>round2 q - q\<bar> \<le> 1 / 200"
proof -
  have "\<bar>round2 q - q\<bar> = \<bar>of_int (round_half_even (q * 100)) - q * 100\<bar> / 100"
    unfolding round2_def by (simp add: field_simps abs_if)
  also have "\<dots> \<le> (1 / 2) / 100"
    using round_half_even_near [of "q * 100"] by (simp add: divide_right_mono)
  finally show ?thesis by simp
qed

lemma round2_hundredths: "\<exists>k::int. round2 q = of_int k / 100"
  unfolding round2_def by blast

lemma round2_of_int: "round2 (of_int k) = of_int k"
proof -
  have "of_int k * (100::rat) = of_int (k * 100)" by simp
  then show ?thesis unfolding round2_def by (simp only: round_half_even_of_int) simp?
qed

subsection \<open>Trend classification\<close>

lemma fit_example_stable:
  "polyfit1 (arange (length [0, 1 / 10, 1 / 5 :: rat])) [0, 1 / 10, 1 / 5] = (1 / 10, 0)"
  by code_simp

text \<open>
  Claim C3. A series of fewer than two points is \<open>stable\<close>. From two points on there is
  a least-squares line over \<open>x = 0 .. n - 1\<close>, and with its slope the trend is
  \<open>improving\<close> exactly when the slope is above 1/10, \<open>degrading\<close> exactly when it is
  below -1/10, and \<open>stable\<close> exactly in between, both bounds included.
\<close>

theorem calculate_trend_classification:
  "(length ys < 2 \<longrightarrow> calculate_trend ys = ''stable'') \<and>
   (2 \<le> length ys \<longrightarrow>
      (\<exists>slope intercept. least_squares_line ys slope intercept) \<and>
      (\<forall>slope intercept. least_squares_line ys slope intercept \<longrightarrow>
         (calculate_trend ys = ''improving'' \<longleftrightarrow> slope > 1 / 10) \<and>
         (calculate_trend ys = ''degrading'' \<longleftrightarrow> slope < - (1 / 10)) \<and>
         (calculate_trend ys = ''stable'' \<longleftrightarrow> - (1 / 10) \<le> slope \<and> slope \<le> 1 / 10)))"
proof (intro conjI impI allI)
  assume "length ys < 2"
  then show "calculate_trend ys = ''stable''" by (simp add: calculate_trend_def)
next
  assume n2: "2 \<le> length ys"
  obtain a b where fit: "polyfit1 (arange (length ys)) ys = (a, b)"
    by (cases "polyfit1 (arange (length ys)) ys")
  from polyfit1_minimises [OF n2 fit]
  show "\<exists>slope intercept. least_squares_line ys slope intercept" by blast
next
  fix slope intercept
  assume n2: "2 \<le> length ys" and ls: "least_squares_line ys slope intercept"
  then have fit: "polyfit1 (arange (length ys)) ys = (slope, intercept)"
    by (simp add: least_squares_line_iff)
  have ct: "calculate_trend ys =
      (if slope > 1 / 10 then ''improving''
       else if slope < - (1 / 10) then ''degrading'' else ''stable'')"
    using n2 by (simp add: calculate_trend_def Let_def fit)
  show "calculate_trend ys = ''improving'' \<longleftrightarrow> slope > 1 / 10"
    unfolding ct by simp
  show "calculate_trend ys = ''degrading'' \<longleftrightarrow> slope < - (1 / 10)"
    unfolding ct by auto
  show "calculate_trend ys = ''stable'' \<longleftrightarrow> - (1 / 10) \<le> slope \<and> slope \<le> 1 / 10"
    unfolding ct by auto
qed

theorem calculate_trend_classification_witness:
  "calculate_trend [42] = ''stable'' \<and>
   least_squares_line [0, 1 / 10, 1 / 5] (1 / 10) 0 \<and>
   calculate_trend [0, 1 / 10, 1 / 5] = ''stable''"
proof -
  have ls: "least_squares_line [0, 1 / 10, 1 / 5] (1 / 10) 0"
    by (rule polyfit1_minimises [OF _ fit_example_stable]) simp
  have "calculate_trend [42] = ''stable''"
    using calculate_trend_classification [of "[42]"] by simp
  moreover have "calculate_trend [0, 1 / 10, 1 / 5] = ''stable''"
    using calculate_trend_classification [of "[0, 1 / 10, 1 / 5]"] ls by fastforce
  ultimately show ?thesis using ls by simp
qed

subsection \<open>Prediction\<close>

lemma fit_example_falling:
  "polyfit1 (arange (length [80, 75, 70, 65 :: rat])) [80, 75, 70, 65] = (- 5, 80)"
  by code_simp

text \<open>
  Claim C5. With fewer than three points there is no prediction. From three points on the
  prediction is the least-squares line over \<open>x = 0 .. n - 1\<close> taken at \<open>x = n\<close> and
  rounded to two decimals: a multiple of 1/100 at most 1/200 away from the line's value.
\<close>

theorem predict_next_value_fit:
  "(length ys < 3 \<longrightarrow> predict_next_value ys = None) \<and>
   (3 \<le> length ys \<longrightarrow>
      (\<exists>slope intercept. least_squares_line ys slope intercept) \<and>
      (\<forall>slope intercept. least_squares_line ys slope intercept \<longrightarrow>
         (\<exists>p k. predict_next_value ys = Some p \<and>
                p = round2 (slope * of_nat (length ys) + intercept) \<and>
                p = of_int k / 100 \<and>
                \<bar>p - (slope * of_nat (length ys) + intercept)\<bar> \<le> 1 / 200)))"
proof (intro conjI impI allI)
  assume "length ys < 3"
  then show "predict_next_value ys = None" by (simp add: predict_next_value_def)
next
  assume "3 \<le> length ys"
  then have n2: "2 \<le> length ys" by simp
  obtain a b where fit: "polyfit1 (arange (length ys)) ys = (a, b)"
    by (cases "polyfit1 (arange (length ys)) ys")
  from polyfit1_minimises [OF n2 fit]
  show "\<exists>slope intercept. least_squares_line ys slope intercept" by blast
next
  fix slope intercept
  assume n3: "3 \<le> length ys" and ls: "least_squares_line ys slope intercept"
  then have fit: "polyfit1 (arange (length ys)) ys = (slope, intercept)"
    by (simp add: least_squares_line_iff)
  let ?v = "slope * of_nat (length ys) + intercept"
  have p: "predict_next_value ys = Some (round2 ?v)"
    using n3 by (simp add: predict_next_value_def Let_def fit)
  obtain k :: int where k: "round2 ?v = of_int k / 100"
    using round2_hundredths by blast
  show "\<exists>p k. predict_next_value ys = Some p \<and> p = round2 ?v \<and>
      p = of_int k / 100 \<and> \<bar>p - ?v\<bar> \<le> 1 / 200"
    using p k round2_near [of ?v] by blast
qed

theorem predict_next_value_fit_witness:
  "predict_next_value [1, 2] = None \<and>
   least_squares_line [80, 75, 70, 65] (- 5) 80 \<and>
   predict_next_value [80, 75, 70, 65] = Some 60"
proof -
  have ls: "least_squares_line [80, 75, 70, 65] (- 5) 80"
    by (rule polyfit1_minimises [OF _ fit_example_falling]) simp
  have "predict_next_value [1, 2] = None"
    using predict_next_value_fit [of "[1, 2]"] by simp
  moreover have "predict_next_value [80, 75, 70, 65] = Some 60"
  proof -
    from predict_next_value_fit [of "[80, 75, 70, 65]"] ls
    obtain p where "predict_next_value [80, 75, 70, 65] = Some p"
      and "p = round2 (- 5 * of_nat (length [80, 75, 70, 65 :: rat]) + 80)"
      by fastforce
    moreover have "round2 (- 5 * of_nat (length [80, 75, 70, 65 :: rat]) + 80) = 60"
      using round2_of_int [of 60] by simp
    ultimately show ?thesis by simp
  qed
  ultimately show ?thesis using ls by simp
qed

subsection \<open>Scenario: a steadily falling level\<close>

text \<open>
  Claim C6. For the series 80, 75, 70, 65 the trend is \<open>degrading\<close> and the predicted next
  value is 60.
\<close>

theorem falling_level_scenario:
  "calculate_trend [80, 75, 70, 65] = ''degrading'' \<and>
   predict_next_value [80, 75, 70, 65] = Some 60"
  by code_simp

end
